theory Spec2Isabelle
  imports Main "HOL-Library.Word" "HOL-Library.Multiset"
begin

section \<open>Outcomes of Go code\<close>

text \<open>
  A Go function either returns (possibly with a non-nil \<open>error\<close> value) or panics.
  A panic is the left summand of the result; the static part of the panic message is kept.
  Run-time panics of the language (nil dereference, index out of range, division by zero)
  are panics like the explicit ones.
\<close>

datatype panic =
    Panic string
  | NilDereference
  | IndexOutOfRange
  | DivisionByZero

definition bindE :: "panic + 'a \<Rightarrow> ('a \<Rightarrow> panic + 'b) \<Rightarrow> panic + 'b" where
  "bindE m f = (case m of Inl e \<Rightarrow> Inl e | Inr v \<Rightarrow> f v)"

section \<open>Finite field elements: \<open>Zp\<close>\<close>

text \<open>
  \<open>type Zp struct { *big.Int; P *big.Int }\<close>: a field element is a pair of pointers to
  big integers, and the methods work on pointers to such pairs.  The heap holds the big
  integers and the \<open>Zp\<close> structs in two tables; an address is an index into its table, a
  fresh object is appended, and an address outside the table is a nil or dangling
  pointer, whose dereference panics.
\<close>

type_synonym addr = nat

text \<open>(The embedded field \<open>Int\<close> is written \<open>Int'\<close>: \<open>Int\<close> is the set intersection of HOL.)\<close>

record Zp =
  Int' :: addr
  P :: addr

record heap =
  ints :: "int list"
  zps :: "Zp list"

definition getInt :: "heap \<Rightarrow> addr \<Rightarrow> panic + int" where
  "getInt h a = (if a < length (ints h) then Inr (ints h ! a) else Inl NilDereference)"

definition setInt :: "heap \<Rightarrow> addr \<Rightarrow> int \<Rightarrow> heap" where
  "setInt h a v = h\<lparr>ints := (ints h)[a := v]\<rparr>"

definition getZp :: "heap \<Rightarrow> addr \<Rightarrow> panic + Zp" where
  "getZp h a = (if a < length (zps h) then Inr (zps h ! a) else Inl NilDereference)"

definition newInt :: "heap \<Rightarrow> int \<Rightarrow> heap \<times> addr" where
  \<comment> \<open>\<open>big.NewInt(v)\<close>\<close>
  "newInt h v = (h\<lparr>ints := ints h @ [v]\<rparr>, length (ints h))"

definition newZpStruct :: "heap \<Rightarrow> Zp \<Rightarrow> heap \<times> addr" where
  \<comment> \<open>\<open>&Zp{...}\<close>\<close>
  "newZpStruct h z = (h\<lparr>zps := zps h @ [z]\<rparr>, length (zps h))"

definition big_Mod :: "int \<Rightarrow> int \<Rightarrow> panic + int" where
  \<comment> \<open>\<open>big.Int.Mod\<close>: Euclidean modulus, a division-by-zero panic for a zero modulus.\<close>
  "big_Mod x y = (if y = 0 then Inl DivisionByZero else Inr (x mod \<bar>y\<bar>))"

definition Norm :: "heap \<Rightarrow> addr \<Rightarrow> panic + heap" where
  \<comment> \<open>\<open>zp.Mod(zp.Int, zp.P)\<close>\<close>
  "Norm h zp =
     bindE (getZp h zp) (\<lambda>z.
     bindE (getInt h (Int' z)) (\<lambda>v.
     bindE (getInt h (P z)) (\<lambda>p.
     bindE (big_Mod v p) (\<lambda>r.
     Inr (setInt h (Int' z) r)))))"

definition NewZp :: "heap \<Rightarrow> 64 word \<Rightarrow> 64 word \<Rightarrow> panic + heap \<times> addr" where
  \<comment> \<open>\<open>p\<close> and \<open>n\<close> are \<open>int64\<close>.\<close>
  "NewZp h p n =
     (let (h1, a) = newInt h (sint n);
          (h2, b) = newInt h1 (sint p);
          (h3, zp) = newZpStruct h2 \<lparr>Int' = a, P = b\<rparr>
      in bindE (Norm h3 zp) (\<lambda>h4. Inr (h4, zp)))"

fun assertP :: "heap \<Rightarrow> addr \<Rightarrow> addr list \<Rightarrow> panic + unit" where
  "assertP h zp [] = Inr ()"
| "assertP h zp (v # vs) =
     bindE (getZp h zp) (\<lambda>z.
     bindE (getZp h v) (\<lambda>vz.
     bindE (getInt h (P z)) (\<lambda>p.
     bindE (getInt h (P vz)) (\<lambda>q.
     if p \<noteq> q then Inl (Panic ''finite field mismatch'')
     else assertP h zp vs))))"

definition Cmp :: "heap \<Rightarrow> addr \<Rightarrow> addr \<Rightarrow> panic + int" where
  "Cmp h zp x =
     bindE (assertP h zp [x]) (\<lambda>_.
     bindE (getZp h zp) (\<lambda>z.
     bindE (getZp h x) (\<lambda>xz.
     bindE (getInt h (Int' z)) (\<lambda>a.
     bindE (getInt h (Int' xz)) (\<lambda>b.
     Inr (if a < b then - 1 else if a = b then 0 else 1))))))"

definition Add :: "heap \<Rightarrow> addr \<Rightarrow> addr \<Rightarrow> addr \<Rightarrow> panic + heap \<times> addr" where
  "Add h zp x y =
     bindE (assertP h zp [x, y]) (\<lambda>_.
     bindE (getZp h zp) (\<lambda>z.
     bindE (getZp h x) (\<lambda>xz.
     bindE (getZp h y) (\<lambda>yz.
     bindE (getInt h (Int' xz)) (\<lambda>a.
     bindE (getInt h (Int' yz)) (\<lambda>b.
     bindE (getInt h (Int' z)) (\<lambda>_.
     bindE (Norm (setInt h (Int' z) (a + b)) zp) (\<lambda>h'.
     Inr (h', zp)))))))))"

definition Mul :: "heap \<Rightarrow> addr \<Rightarrow> addr \<Rightarrow> addr \<Rightarrow> panic + heap \<times> addr" where
  "Mul h zp x y =
     bindE (assertP h zp [x, y]) (\<lambda>_.
     bindE (getZp h zp) (\<lambda>z.
     bindE (getZp h x) (\<lambda>xz.
     bindE (getZp h y) (\<lambda>yz.
     bindE (getInt h (Int' xz)) (\<lambda>a.
     bindE (getInt h (Int' yz)) (\<lambda>b.
     bindE (getInt h (Int' z)) (\<lambda>_.
     bindE (Norm (setInt h (Int' z) (a * b)) zp) (\<lambda>h'.
     Inr (h', zp)))))))))"

text \<open>The value and the modulus a \<open>*Zp\<close> denotes in a heap (for stating properties).\<close>

definition valueOf :: "heap \<Rightarrow> addr \<Rightarrow> int" where
  "valueOf h zp = ints h ! Int' (zps h ! zp)"

definition modulusOf :: "heap \<Rightarrow> addr \<Rightarrow> int" where
  "modulusOf h zp = ints h ! P (zps h ! zp)"

definition wellFormed :: "heap \<Rightarrow> addr \<Rightarrow> bool" where
  \<comment> \<open>the pointer and the two pointers of the struct are valid\<close>
  "wellFormed h zp \<longleftrightarrow>
     zp < length (zps h) \<and> Int' (zps h ! zp) < length (ints h) \<and> P (zps h ! zp) < length (ints h)"


section \<open>Field elements as values\<close>

text \<open>
  The prefix tree only ever multiplies into a receiver that it has just created
  (\<open>Z(z.P).Mul(svalues[i], marray[i])\<close>), and the field elements it holds are decoded from
  byte strings, so no two of them share a big integer.  There a field element is the pair
  of its value and its modulus.
\<close>

record ZpV =
  num :: int
  modulus :: int

definition mulZ :: "int \<Rightarrow> ZpV \<Rightarrow> ZpV \<Rightarrow> panic + ZpV" where
  \<comment> \<open>\<open>Z(p).Mul(x, y)\<close>: \<open>assertP\<close>, the product, \<open>Norm\<close>.  Modelled from the spec: \<open>Z(p)\<close>,
      absent from the sources, is a new element of the field of modulus \<open>p\<close>.\<close>
  "mulZ p x y =
     (if p \<noteq> modulus x \<or> p \<noteq> modulus y then Inl (Panic ''finite field mismatch'')
      else bindE (big_Mod (num x * num y) p) (\<lambda>r. Inr \<lparr>num = r, modulus = p\<rparr>))"

definition subZ :: "int \<Rightarrow> ZpV \<Rightarrow> ZpV \<Rightarrow> panic + ZpV" where
  \<comment> \<open>Modelled from the spec: the difference \<open>x - y\<close> in the field of modulus \<open>p\<close>, the
      operation behind the delta vector \<open>[point_j - element]\<close> (section 4.3); the sources
      have \<open>Add\<close> and \<open>Mul\<close> only.  It checks the moduli and normalises as they do.\<close>
  "subZ p x y =
     (if p \<noteq> modulus x \<or> p \<noteq> modulus y then Inl (Panic ''finite field mismatch'')
      else bindE (big_Mod (num x - num y) p) (\<lambda>r. Inr \<lparr>num = r, modulus = p\<rparr>))"

text \<open>How a heap element is read as a value (for relating the two levels).\<close>

definition toV :: "heap \<Rightarrow> addr \<Rightarrow> ZpV" where
  "toV h zp = \<lparr>num = valueOf h zp, modulus = modulusOf h zp\<rparr>"

section \<open>Bytes and big integers\<close>

type_synonym byte = "8 word"

fun leBytes :: "nat \<Rightarrow> byte list" where
  "leBytes n = (if n = 0 then [] else of_nat (n mod 256) # leBytes (n div 256))"

declare leBytes.simps [simp del]

definition big_Bytes :: "int \<Rightarrow> byte list" where
  \<comment> \<open>\<open>big.Int.Bytes\<close>: the absolute value, big-endian, without leading zero bytes.\<close>
  "big_Bytes v = rev (leBytes (nat \<bar>v\<bar>))"

definition big_SetBytes :: "byte list \<Rightarrow> int" where
  \<comment> \<open>\<open>big.Int.SetBytes\<close>: the bytes read as a big-endian unsigned integer.\<close>
  "big_SetBytes bs = int (foldl (\<lambda>acc b. acc * 256 + unat b) 0 bs)"

fun bitLen :: "nat \<Rightarrow> nat" where
  "bitLen n = (if n = 0 then 0 else Suc (bitLen (n div 2)))"

declare bitLen.simps [simp del]

definition big_BitLen :: "int \<Rightarrow> int" where
  \<comment> \<open>\<open>big.Int.BitLen\<close>: the length of the absolute value in bits, 0 for 0.\<close>
  "big_BitLen v = int (bitLen (nat \<bar>v\<bar>))"

definition ReverseBytes :: "byte list \<Rightarrow> byte list" where
  \<comment> \<open>Modelled from the spec: \<open>ReverseBytes\<close>, absent from the sources, reverses the byte
      order of an element's encoding (section 4.2).\<close>
  "ReverseBytes bs = rev bs"

section \<open>Bit strings\<close>

text \<open>
  The type \<open>Bitstring\<close> and its methods are not in the sources.  Section 3 of the spec
  gives the model: an ordered bit sequence of bounded capacity, with bit get, set and
  unset and a conversion from and to bytes.  A bit string is the list of its bits, its
  capacity the length of the list; a bit position outside the capacity is an
  index-out-of-range panic.  In a byte the first bit is the most significant one, and the
  last byte is filled with zero bits.
\<close>

type_synonym Bitstring = "bool list"

definition NewBitstring :: "int \<Rightarrow> panic + Bitstring" where
  \<comment> \<open>Modelled from the spec: a bit string of the given capacity, all bits zero.  The
      argument is a Go \<open>int\<close>; no bit string has a negative capacity.\<close>
  "NewBitstring n = (if n < 0 then Inl (Panic ''negative capacity'') else Inr (replicate (nat n) False))"

definition BitLen :: "Bitstring \<Rightarrow> int" where
  \<comment> \<open>Modelled from the spec: the capacity in bits.\<close>
  "BitLen bs = int (length bs)"

definition byteOfBits :: "bool list \<Rightarrow> byte" where
  "byteOfBits bs = horner_sum of_bool 2 (rev (take 8 (bs @ replicate 8 False)))"

definition bitsOfByte :: "byte \<Rightarrow> bool list" where
  "bitsOfByte b = rev (map (bit b) [0..<8])"

fun packBits :: "bool list \<Rightarrow> byte list" where
  "packBits [] = []"
| "packBits (b # bs) = byteOfBits (b # bs) # packBits (drop 7 bs)"

definition Bytes :: "Bitstring \<Rightarrow> byte list" where
  \<comment> \<open>Modelled from the spec: the bits, eight to a byte.\<close>
  "Bytes bs = packBits bs"

definition SetBytes :: "Bitstring \<Rightarrow> byte list \<Rightarrow> Bitstring" where
  \<comment> \<open>Modelled from the spec: the bits of the bytes, cut or filled with zero bits to the
      capacity of the receiver.\<close>
  "SetBytes bs buf = take (length bs) (concat (map bitsOfByte buf) @ replicate (length bs) False)"

definition Get :: "Bitstring \<Rightarrow> int \<Rightarrow> panic + int" where
  \<comment> \<open>Modelled from the spec: the bit at a position, 0 or 1.\<close>
  "Get bs i = (if 0 \<le> i \<and> i < int (length bs) then Inr (if bs ! nat i then 1 else 0)
               else Inl IndexOutOfRange)"

definition Set :: "Bitstring \<Rightarrow> int \<Rightarrow> panic + Bitstring" where
  \<comment> \<open>Modelled from the spec: the bit at a position becomes 1.\<close>
  "Set bs i = (if 0 \<le> i \<and> i < int (length bs) then Inr (bs[nat i := True])
               else Inl IndexOutOfRange)"

definition Unset :: "Bitstring \<Rightarrow> int \<Rightarrow> panic + Bitstring" where
  \<comment> \<open>Modelled from the spec: the bit at a position becomes 0.\<close>
  "Unset bs i = (if 0 \<le> i \<and> i < int (length bs) then Inr (bs[nat i := False])
               else Inl IndexOutOfRange)"

section \<open>Serialization\<close>

text \<open>
  The readers and writers of integers, bit strings and arrays of field elements are not
  in the sources.  The spec (section 6) describes the arrays as length-prefixed sequences
  of big-integer encodings and (section 8) gives each element a fixed serialized size.
  A reader returns the decoded value and the rest of the input, as a \<open>bytes.Buffer\<close> that
  has been read from does; a reader that runs out of input returns an \<open>error\<close>.
\<close>

datatype err = ErrNotFound | EOF

definition WriteInt :: "nat \<Rightarrow> byte list" where
  \<comment> \<open>Modelled from the spec: a length as four bytes, big-endian.\<close>
  "WriteInt n = [of_nat (n div 16777216), of_nat (n div 65536), of_nat (n div 256), of_nat n]"

fun ReadInt :: "byte list \<Rightarrow> err + nat \<times> byte list" where
  \<comment> \<open>Modelled from the spec: the reader of \<open>WriteInt\<close>.\<close>
  "ReadInt (a # b # c # d # rest) =
     Inr (unat a * 16777216 + unat b * 65536 + unat c * 256 + unat d, rest)"
| "ReadInt _ = Inl EOF"

definition zpWidth :: "int \<Rightarrow> nat" where
  \<comment> \<open>the serialized size of an element of the field of modulus \<open>p\<close>: the bytes of \<open>p\<close>\<close>
  "zpWidth p = length (big_Bytes p)"

definition WriteZp :: "int \<Rightarrow> ZpV \<Rightarrow> byte list" where
  \<comment> \<open>Modelled from the spec: the big-endian bytes of the value, filled with leading zero
      bytes to the serialized size of an element.\<close>
  "WriteZp p z = (let b = big_Bytes (num z) in replicate (zpWidth p - length b) 0 @ b)"

definition ReadZp :: "int \<Rightarrow> byte list \<Rightarrow> err + ZpV \<times> byte list" where
  \<comment> \<open>Modelled from the spec: the reader of \<open>WriteZp\<close>; the element read is in the field of
      modulus \<open>p\<close>.\<close>
  "ReadZp p bs =
     (if length bs < zpWidth p then Inl EOF
      else Inr (\<lparr>num = big_SetBytes (take (zpWidth p) bs), modulus = p\<rparr>, drop (zpWidth p) bs))"

fun readZps :: "int \<Rightarrow> nat \<Rightarrow> byte list \<Rightarrow> err + ZpV list" where
  "readZps p 0 bs = Inr []"
| "readZps p (Suc n) bs =
     (case ReadZp p bs of
        Inl e \<Rightarrow> Inl e
      | Inr (z, rest) \<Rightarrow> (case readZps p n rest of Inl e \<Rightarrow> Inl e | Inr zs \<Rightarrow> Inr (z # zs)))"

definition WriteZZarray :: "int \<Rightarrow> ZpV list \<Rightarrow> byte list" where
  \<comment> \<open>Modelled from the spec: the number of elements, then each element.  The bytes are the
      ones the writer appends to its buffer; a write to a \<open>bytes.Buffer\<close> returns no error.\<close>
  "WriteZZarray p arr = WriteInt (length arr) @ concat (map (WriteZp p) arr)"

definition ReadZZarray :: "int \<Rightarrow> byte list \<Rightarrow> err + ZpV list" where
  \<comment> \<open>Modelled from the spec: the reader of \<open>WriteZZarray\<close>, on a new buffer over the
      bytes.  It reads the array at the front and leaves what follows unread.\<close>
  "ReadZZarray p bs =
     (case ReadInt bs of Inl e \<Rightarrow> Inl e | Inr (n, rest) \<Rightarrow> readZps p n rest)"

definition WriteBitstring :: "Bitstring \<Rightarrow> byte list" where
  \<comment> \<open>Modelled from the spec: the zero-length key of the root is the empty byte string
      (section 3, and \<open>Root\<close> and \<open>Parent\<close> below); any other key is its length in bits,
      then its bytes.\<close>
  "WriteBitstring bs = (if bs = [] then [] else WriteInt (length bs) @ Bytes bs)"

definition ReadBitstring :: "byte list \<Rightarrow> err + Bitstring" where
  \<comment> \<open>Modelled from the spec: the reader of \<open>WriteBitstring\<close>.\<close>
  "ReadBitstring bs =
     (if bs = [] then Inr []
      else case ReadInt bs of
             Inl e \<Rightarrow> Inl e
           | Inr (n, rest) \<Rightarrow>
               if length rest < (n + 7) div 8 then Inl EOF
               else Inr (SetBytes (replicate n False) (take ((n + 7) div 8) rest)))"


section \<open>The prefix tree\<close>

text \<open>
  Of \<open>config\<close> the fields the tree reads are kept.  Go's \<open>int\<close> is \<open>int\<close> for the settings,
  lengths, depths and indices, and a 64-bit word for the element count of a node, the one
  integer that the code increments.
\<close>

record config =
  threshMult :: int
  bitQuantum :: int
  mBar :: int
  splitThreshold :: int
  joinThreshold :: int
  numSamples :: int

record nodeData =
  key :: "byte list"
  numElements :: "64 word"
  svalues :: "byte list"
  elements :: "byte list"
  childKeys :: "int list"

text \<open>
  The collection \<open>store\<close> is the list of its documents; a query for a key returns the
  first document with that key.  \<open>P_SKS\<close>, a global of the package that is not in the
  sources, is the modulus of the field and a parameter of the tree.  A \<open>prefixNode\<close> is
  a pointer to its tree and a pointer to its \<open>nodeData\<close>: the methods of a node take both.
\<close>

record prefixTree =
  settings :: config
  store :: "nodeData list"
  points :: "ZpV list"
  P_SKS :: int

definition BitQuantum :: "prefixTree \<Rightarrow> int" where
  "BitQuantum t = bitQuantum (settings t)"

definition SplitThreshold :: "prefixTree \<Rightarrow> int" where
  "SplitThreshold t = splitThreshold (settings t)"

definition findOne :: "nodeData list \<Rightarrow> byte list \<Rightarrow> err + nodeData" where
  \<comment> \<open>\<open>store.Find(bson.M{"key": k}).One(nd)\<close>\<close>
  "findOne st k = (case find (\<lambda>nd. key nd = k) st of None \<Rightarrow> Inl ErrNotFound | Some nd \<Rightarrow> Inr nd)"

definition Root :: "prefixTree \<Rightarrow> err + nodeData" where
  "Root t = findOne (store t) []"

definition Node :: "prefixTree \<Rightarrow> Bitstring \<Rightarrow> err + nodeData" where
  "Node t bs = findOne (store t) (Bytes bs)"

definition IsLeaf :: "nodeData \<Rightarrow> bool" where
  "IsLeaf n \<longleftrightarrow> length (childKeys n) = 0"

definition Elements :: "prefixTree \<Rightarrow> nodeData \<Rightarrow> panic + ZpV list" where
  "Elements t n =
     (case ReadZZarray (P_SKS t) (elements n) of
        Inl e \<Rightarrow> Inl (Panic ''Invalid elements'')
      | Inr els \<Rightarrow> Inr els)"


definition SValues :: "prefixTree \<Rightarrow> nodeData \<Rightarrow> panic + ZpV list" where
  "SValues t n =
     (case ReadZZarray (P_SKS t) (svalues n) of
        Inl e \<Rightarrow> Inl (Panic ''Invalid elements'')
      | Inr sv \<Rightarrow> Inr sv)"

definition Key :: "nodeData \<Rightarrow> panic + Bitstring" where
  "Key n =
     (case ReadBitstring (key n) of
        Inl e \<Rightarrow> Inl (Panic ''Invalid bitstring'')
      | Inr k \<Rightarrow> Inr k)"

fun setIndexBits :: "Bitstring \<Rightarrow> int \<Rightarrow> int \<Rightarrow> nat list \<Rightarrow> panic + Bitstring" where
  \<comment> \<open>the loop over \<open>j\<close> of \<open>Children\<close> and of \<open>newChildNode\<close>:
      bit \<open>base + j\<close> of the key becomes bit \<open>j\<close> of the index \<open>i\<close>\<close>
  "setIndexBits childKey base i [] = Inr childKey"
| "setIndexBits childKey base i (j # js) =
     bindE (if bit i j then Set childKey (base + int j) else Unset childKey (base + int j))
       (\<lambda>childKey'. setIndexBits childKey' base i js)"

fun childrenLoop :: "prefixTree \<Rightarrow> Bitstring \<Rightarrow> int list \<Rightarrow> panic + nodeData list" where
  "childrenLoop t k [] = Inr []"
| "childrenLoop t k (i # is) =
     bindE (NewBitstring (BitLen k)) (\<lambda>childKey0.
     bindE (setIndexBits (SetBytes childKey0 (Bytes k)) (BitLen k) i [0..<nat (BitQuantum t)])
       (\<lambda>childKey.
     case Node t childKey of
       Inl e \<Rightarrow> Inl (Panic ''Children failed on child'')
     | Inr child \<Rightarrow> bindE (childrenLoop t k is) (\<lambda>result. Inr (child # result))))"

definition Children :: "prefixTree \<Rightarrow> nodeData \<Rightarrow> panic + nodeData list" where
  "Children t n =
     bindE (Key n) (\<lambda>k. childrenLoop t k (map int [0..<nat (BitQuantum t)]))"

definition Parent :: "prefixTree \<Rightarrow> nodeData \<Rightarrow> panic + nodeData option" where
  \<comment> \<open>\<open>None\<close> is \<open>(nil, false)\<close>.  The error of \<open>ReadBitstring\<close> is dropped by the source, and
      the key that comes with an error is nil.\<close>
  "Parent t n =
     (if length (key n) = 0 then Inr None
      else case ReadBitstring (key n) of
             Inl e \<Rightarrow> Inl NilDereference
           | Inr k \<Rightarrow>
               bindE (NewBitstring (BitLen k - BitQuantum t)) (\<lambda>parentKey0.
               case Node t (SetBytes parentKey0 (Bytes k)) of
                 Inl e \<Rightarrow> Inl (Panic ''Failed to get parent'')
               | Inr parent \<Rightarrow> Inr (Some parent)))"

definition newChildNode :: "prefixTree \<Rightarrow> nodeData \<Rightarrow> int \<Rightarrow> panic + nodeData" where
  "newChildNode t parent childIndex =
     bindE (Key parent) (\<lambda>k.
     bindE (NewBitstring (BitLen k + BitQuantum t)) (\<lambda>childKey0.
     bindE (setIndexBits (SetBytes childKey0 (Bytes k)) (BitLen k) childIndex
              [0..<nat (BitQuantum t)]) (\<lambda>childKey.
     Inr \<lparr>key = WriteBitstring childKey, numElements = 0, svalues = [], elements = [],
          childKeys = []\<rparr>)))"

fun mulLoop :: "int \<Rightarrow> ZpV list \<Rightarrow> ZpV list \<Rightarrow> nat \<Rightarrow> panic + ZpV list" where
  \<comment> \<open>the loop of \<open>updateSvalues\<close>, from index \<open>i\<close> on, over what is left of \<open>marray\<close>\<close>
  "mulLoop p sv [] i = Inr sv"
| "mulLoop p sv (m # ms) i =
     (if i < length sv
      then bindE (mulZ p (sv ! i) m) (\<lambda>r. mulLoop p (sv[i := r]) ms (Suc i))
      else Inl IndexOutOfRange)"

definition updateSvalues :: "prefixTree \<Rightarrow> nodeData \<Rightarrow> ZpV \<Rightarrow> ZpV list \<Rightarrow> panic + nodeData" where
  "updateSvalues t n z marray =
     (if length marray \<noteq> length (points t) then Inl (Panic ''Inconsistent NumSamples size'')
      else case ReadZZarray (P_SKS t) (svalues n) of
             Inl e \<Rightarrow> Inl (Panic ''Failed to read svalues'')
           | Inr sv \<Rightarrow>
               bindE (mulLoop (modulus z) sv marray 0) (\<lambda>sv'.
               Inr (n\<lparr>svalues := WriteZZarray (P_SKS t) sv'\<rparr>)))"

fun nextIndex :: "Bitstring \<Rightarrow> int \<Rightarrow> nat list \<Rightarrow> panic + nat" where
  "nextIndex bs base [] = Inr 0"
| "nextIndex bs base (j # js) =
     bindE (Get bs (base + int j)) (\<lambda>b.
     bindE (nextIndex bs base js) (\<lambda>r. Inr (nat b * 2 ^ j + r)))"

definition NextChild :: "prefixTree \<Rightarrow> nodeData \<Rightarrow> Bitstring \<Rightarrow> int \<Rightarrow> panic + nodeData" where
  \<comment> \<open>Modelled from the spec: \<open>NextChild\<close>, absent from the sources, selects among the
      children of the node the one for the next \<open>bitQuantum\<close> bits of the element's key,
      from the current depth (section 4.3, step 4).  The bits make the index as
      \<open>newChildNode\<close> writes an index into a key.\<close>
  "NextChild t n bs depth =
     bindE (Children t n) (\<lambda>children.
     bindE (nextIndex bs (BitQuantum t * depth) [0..<nat (BitQuantum t)]) (\<lambda>i.
     if i < length children then Inr (children ! i) else Inl IndexOutOfRange))"

fun mapE :: "('a \<Rightarrow> panic + 'b) \<Rightarrow> 'a list \<Rightarrow> panic + 'b list" where
  "mapE f [] = Inr []"
| "mapE f (x # xs) = bindE (f x) (\<lambda>y. bindE (mapE f xs) (\<lambda>ys. Inr (y # ys)))"

definition AddElementArray :: "prefixTree \<Rightarrow> ZpV \<Rightarrow> panic + ZpV list" where
  \<comment> \<open>Modelled from the spec: \<open>AddElementArray\<close>, absent from the sources, is the delta vector
      \<open>[point_j - element]\<close> over the sample points of the tree (section 4.3).\<close>
  "AddElementArray t z = mapE (\<lambda>point. subZ (modulus z) point z) (points t)"

definition keyOf :: "prefixTree \<Rightarrow> ZpV \<Rightarrow> panic + Bitstring" where
  \<comment> \<open>\<open>bs := NewBitstring(P_SKS.BitLen()); bs.SetBytes(ReverseBytes(z.Bytes()))\<close>,
      as \<open>Insert\<close> and \<open>split\<close> both have it\<close>
  "keyOf t z =
     bindE (NewBitstring (big_BitLen (P_SKS t))) (\<lambda>bs.
     Inr (SetBytes bs (ReverseBytes (big_Bytes (num z)))))"

definition numChildren :: "int \<Rightarrow> int" where
  \<comment> \<open>\<open>1 << uint(bitQuantum)\<close> on a 64-bit \<open>int\<close>: a shift by 64 or more gives 0\<close>
  "numChildren bq = (if 0 \<le> bq \<and> bq < 64 then sint (push_bit (nat bq) (1 :: 64 word)) else 0)"

fun createChildren :: "prefixTree \<Rightarrow> nodeData \<Rightarrow> int list \<Rightarrow> panic + unit" where
  \<comment> \<open>the first loop of \<open>split\<close>: the result of \<open>newChildNode\<close> is not used\<close>
  "createChildren t n [] = Inr ()"
| "createChildren t n (i # is) = bindE (newChildNode t n i) (\<lambda>_. createChildren t n is)"

text \<open>
  \<open>insert\<close> and \<open>split\<close> call each other, and \<open>insert\<close> calls itself on a node that comes
  from the store, so nothing in the code bounds the recursion.  The first argument is
  fuel, one unit for each call; \<open>None\<close> is a computation that has run out of it.  A
  returning \<open>insert\<close> gives its \<open>error\<close> and the \<open>nodeData\<close> of its receiver as it has left
  it; what it has done to a child is lost with the child, which nothing else refers to.
\<close>

type_synonym inserted = "(panic + err option \<times> nodeData) option"

definition toChild :: "prefixTree \<Rightarrow> nodeData \<Rightarrow> Bitstring \<Rightarrow> int \<Rightarrow> (nodeData \<Rightarrow> inserted) \<Rightarrow> inserted" where
  \<comment> \<open>\<open>child := NextChild(n, bs, depth).(*prefixNode); return child.insert(...)\<close>\<close>
  "toChild t n bs depth ins =
     (case NextChild t n bs depth of
        Inl e \<Rightarrow> Some (Inl e)
      | Inr child \<Rightarrow>
          (case ins child of
             None \<Rightarrow> None
           | Some (Inl e) \<Rightarrow> Some (Inl e)
           | Some (Inr (e, child')) \<Rightarrow> Some (Inr (e, n))))"

fun moveElements :: "prefixTree \<Rightarrow> nodeData \<Rightarrow> int \<Rightarrow>
    (nodeData \<Rightarrow> ZpV \<Rightarrow> ZpV list \<Rightarrow> Bitstring \<Rightarrow> inserted) \<Rightarrow> ZpV list \<Rightarrow> (panic + unit) option" where
  \<comment> \<open>the second loop of \<open>split\<close>; the \<open>error\<close> of \<open>child.insert\<close> is not looked at\<close>
  "moveElements t n depth ins [] = Some (Inr ())"
| "moveElements t n depth ins (element # rest) =
     (case keyOf t element of
        Inl e \<Rightarrow> Some (Inl e)
      | Inr bs \<Rightarrow>
          (case NextChild t n bs depth of
             Inl e \<Rightarrow> Some (Inl e)
           | Inr child \<Rightarrow>
               (case AddElementArray t element of
                  Inl e \<Rightarrow> Some (Inl e)
                | Inr marray \<Rightarrow>
                    (case ins child element marray bs of
                       None \<Rightarrow> None
                     | Some (Inl e) \<Rightarrow> Some (Inl e)
                     | Some (Inr r) \<Rightarrow> moveElements t n depth ins rest))))"

fun insert' :: "nat \<Rightarrow> prefixTree \<Rightarrow> nodeData \<Rightarrow> ZpV \<Rightarrow> ZpV list \<Rightarrow> Bitstring \<Rightarrow> int \<Rightarrow> inserted"
and split' :: "nat \<Rightarrow> prefixTree \<Rightarrow> nodeData \<Rightarrow> int \<Rightarrow> (panic + nodeData) option" where
  "insert' 0 t n z marray bs depth = None"
| "insert' (Suc fuel) t n z marray bs depth =
     (case updateSvalues t n z marray of
        Inl e \<Rightarrow> Some (Inl e)
      | Inr n1 \<Rightarrow>
          (let n2 = n1\<lparr>numElements := numElements n1 + 1\<rparr> in
           if IsLeaf n2 then
             if int (length (elements n2)) > SplitThreshold t then
               (case split' fuel t n2 depth of
                  None \<Rightarrow> None
                | Some (Inl e) \<Rightarrow> Some (Inl e)
                | Some (Inr n3) \<Rightarrow>
                    toChild t n3 bs depth (\<lambda>child. insert' fuel t child z marray bs (depth + 1)))
             else
               (case ReadZZarray (P_SKS t) (elements n2) of
                  Inl e \<Rightarrow> Some (Inr (Some e, n2))
                | Inr els \<Rightarrow>
                    Some (Inr (None,
                      n2\<lparr>elements := elements n2 @ WriteZZarray (P_SKS t) (els @ [z])\<rparr>)))
           else toChild t n2 bs depth (\<lambda>child. insert' fuel t child z marray bs (depth + 1))))"
| "split' 0 t n depth = None"
| "split' (Suc fuel) t n depth =
     (case createChildren t n (map int [0..<nat (numChildren (BitQuantum t))]) of
        Inl e \<Rightarrow> Some (Inl e)
      | Inr u \<Rightarrow>
          (case ReadZZarray (P_SKS t) (elements n) of
             Inl e \<Rightarrow> Some (Inl (Panic ''Error reading elements''))
           | Inr els \<Rightarrow>
               (case moveElements t n depth
                       (\<lambda>child element marray bs.
                          insert' fuel t child element marray bs (depth + 1)) els of
                  None \<Rightarrow> None
                | Some (Inl e) \<Rightarrow> Some (Inl e)
                | Some (Inr u') \<Rightarrow> Some (Inr (n\<lparr>elements := []\<rparr>)))))"

text \<open>
  The two entry points return, with their outcome, the tree as they leave it: the only
  accesses to the store in the file are the queries of \<open>Root\<close> and \<open>Node\<close>.
\<close>

definition Insert :: "nat \<Rightarrow> prefixTree \<Rightarrow> ZpV \<Rightarrow> (panic + err option) option \<times> prefixTree" where
  "Insert fuel t z =
     ((case keyOf t z of
         Inl e \<Rightarrow> Some (Inl e)
       | Inr bs \<Rightarrow>
           (case Root t of
              Inl e \<Rightarrow> Some (Inr (Some e))
            | Inr root \<Rightarrow>
                (case AddElementArray t z of
                   Inl e \<Rightarrow> Some (Inl e)
                 | Inr marray \<Rightarrow>
                     (case insert' fuel t root z marray bs 0 of
                        None \<Rightarrow> None
                      | Some (Inl e) \<Rightarrow> Some (Inl e)
                      | Some (Inr (e, root')) \<Rightarrow> Some (Inr e))))), t)"

definition Remove :: "prefixTree \<Rightarrow> ZpV \<Rightarrow> (panic + err option) \<times> prefixTree" where
  "Remove t z = (Inl (Panic ''remove not impl''), t)"


section \<open>Example inputs\<close>

text \<open>
  A heap with three field elements of modulus 7: the elements 3 and 5 and a receiver of
  value 0.  Each has a big integer of its own for its value; the three share the
  big integer of the modulus, as elements made from one global modulus do.
\<close>

definition exHeap :: heap where
  "exHeap = \<lparr>ints = [7, 3, 5, 0],
             zps = [\<lparr>Int' = 1, P = 0\<rparr>, \<lparr>Int' = 2, P = 0\<rparr>, \<lparr>Int' = 3, P = 0\<rparr>]\<rparr>"

text \<open>The heap after the receiver has taken the sum, or the product, of the two elements.\<close>

definition exHeap' :: heap where
  "exHeap' = \<lparr>ints = [7, 3, 5, 1],
             zps = [\<lparr>Int' = 1, P = 0\<rparr>, \<lparr>Int' = 2, P = 0\<rparr>, \<lparr>Int' = 3, P = 0\<rparr>]\<rparr>"

text \<open>
  A second heap of the same shape with the elements 3 and 6: their sum is 2 and their
  product is 4 in the field of modulus 7.
\<close>

definition exHeapB :: heap where
  "exHeapB = \<lparr>ints = [7, 3, 6, 0],
              zps = [\<lparr>Int' = 1, P = 0\<rparr>, \<lparr>Int' = 2, P = 0\<rparr>, \<lparr>Int' = 3, P = 0\<rparr>]\<rparr>"

text \<open>
  A tree over the field of modulus 251 (elements of one byte), with \<open>bitQuantum = 2\<close>,
  \<open>mBar = 2\<close>, three sample points and a split threshold of 8 bytes.  Its store holds a
  root that is a leaf with no element and sample values 1.
\<close>

definition exConfig :: config where
  "exConfig = \<lparr>threshMult = 4, bitQuantum = 2, mBar = 2, splitThreshold = 8,
                joinThreshold = 4, numSamples = 3\<rparr>"

definition exPoints :: "ZpV list" where
  "exPoints = [\<lparr>num = 1, modulus = 251\<rparr>, \<lparr>num = 2, modulus = 251\<rparr>, \<lparr>num = 3, modulus = 251\<rparr>]"

definition exRoot :: nodeData where
  "exRoot = \<lparr>key = [], numElements = 0, svalues = [0, 0, 0, 3, 1, 1, 1],
              elements = [0, 0, 0, 0], childKeys = []\<rparr>"

definition exTree :: prefixTree where
  "exTree = \<lparr>settings = exConfig, store = [exRoot], points = exPoints, P_SKS = 251\<rparr>"

definition exZ :: ZpV where
  "exZ = \<lparr>num = 60, modulus = 251\<rparr>"

text \<open>The same tree with a root that is a leaf of five elements, 9 bytes of payload.\<close>

definition exFullRoot :: nodeData where
  "exFullRoot = \<lparr>key = [], numElements = 5, svalues = [0, 0, 0, 3, 1, 1, 1],
                  elements = [0, 0, 0, 5, 10, 20, 30, 40, 50], childKeys = []\<rparr>"

definition exFullTree :: prefixTree where
  "exFullTree = exTree\<lparr>store := [exFullRoot]\<rparr>"

text \<open>
  The same tree with an internal root and its four children in the store, each under the
  bytes of its key (the two bits of its index).
\<close>

definition exInnerRoot :: nodeData where
  "exInnerRoot = \<lparr>key = [], numElements = 0, svalues = [0, 0, 0, 3, 1, 1, 1],
                   elements = [], childKeys = [0, 1, 2, 3]\<rparr>"

definition exChild :: "byte \<Rightarrow> nodeData" where
  "exChild b = \<lparr>key = [b], numElements = 0, svalues = [0, 0, 0, 3, 1, 1, 1],
                 elements = [0, 0, 0, 0], childKeys = []\<rparr>"

definition exInnerTree :: prefixTree where
  "exInnerTree =
     exTree\<lparr>store := [exInnerRoot, exChild 0, exChild 128, exChild 64, exChild 192]\<rparr>"

text \<open>
  The delta vector and the key of the element 60 in the first tree, and the root of that
  tree as the insertion of 60 leaves it.
\<close>

definition exMarray :: "ZpV list" where
  "exMarray = [\<lparr>num = 192, modulus = 251\<rparr>, \<lparr>num = 193, modulus = 251\<rparr>, \<lparr>num = 194, modulus = 251\<rparr>]"

definition exKey :: Bitstring where
  "exKey = [False, False, True, True, True, True, False, False]"

definition exRootAfter :: nodeData where
  "exRootAfter = \<lparr>key = [], numElements = 1, svalues = [0, 0, 0, 3, 192, 193, 194],
                   elements = [0, 0, 0, 0, 0, 0, 0, 1, 60], childKeys = []\<rparr>"


section \<open>Properties of the field elements\<close>

lemma bindE_Inr [simp]: "bindE (Inr v) f = f v"
  by (simp add: bindE_def)

lemma bindE_Inl [simp]: "bindE (Inl e) f = Inl e"
  by (simp add: bindE_def)

lemma bindE_eq_Inr: "bindE m f = Inr r \<longleftrightarrow> (\<exists>v. m = Inr v \<and> f v = Inr r)"
  by (cases m) simp_all

lemma Norm_result:
  assumes "zp < length (zps h)" "Int' (zps h ! zp) < length (ints h)" "P (zps h ! zp) < length (ints h)"
    and "ints h ! P (zps h ! zp) \<noteq> 0"
  shows "Norm h zp = Inr (setInt h (Int' (zps h ! zp))
            (ints h ! Int' (zps h ! zp) mod \<bar>ints h ! P (zps h ! zp)\<bar>))"
  using assms by (simp add: Norm_def getZp_def getInt_def big_Mod_def)

lemma assertP_two:
  assumes "wellFormed h zp" "wellFormed h x" "wellFormed h y"
    and "modulusOf h x = modulusOf h zp" "modulusOf h y = modulusOf h zp"
  shows "assertP h zp [x, y] = Inr ()"
  using assms by (simp add: wellFormed_def modulusOf_def getZp_def getInt_def)

lemma Add_value:
  assumes wf: "wellFormed h zp" "wellFormed h x" "wellFormed h y"
    and md: "modulusOf h zp = p" "modulusOf h x = p" "modulusOf h y = p"
    and pos: "0 < p"
    and cell: "Int' (zps h ! zp) \<noteq> P (zps h ! zp)"
  shows "\<exists>h'. Add h zp x y = Inr (h', zp) \<and> valueOf h' zp = (valueOf h x + valueOf h y) mod p
           \<and> modulusOf h' zp = p"
proof -
  let ?z = "zps h ! zp"
  let ?s = "valueOf h x + valueOf h y"
  let ?h1 = "setInt h (Int' ?z) ?s"
  have a: "assertP h zp [x, y] = Inr ()"
    using wf md by (intro assertP_two) simp_all
  have n: "Norm ?h1 zp = Inr (setInt ?h1 (Int' ?z) (?s mod \<bar>p\<bar>))"
    using wf md pos cell
    by (subst Norm_result) (auto simp: wellFormed_def setInt_def modulusOf_def)
  have "Add h zp x y = Inr (setInt ?h1 (Int' ?z) (?s mod \<bar>p\<bar>), zp)"
    using wf a n by (simp add: Add_def wellFormed_def getZp_def getInt_def valueOf_def)
  moreover have "valueOf (setInt ?h1 (Int' ?z) (?s mod \<bar>p\<bar>)) zp = ?s mod p"
    using wf pos by (simp add: valueOf_def setInt_def wellFormed_def)
  moreover have "modulusOf (setInt ?h1 (Int' ?z) (?s mod \<bar>p\<bar>)) zp = p"
    using wf md cell by (simp add: modulusOf_def setInt_def wellFormed_def)
  ultimately show ?thesis by blast
qed

lemma Mul_value:
  assumes wf: "wellFormed h zp" "wellFormed h x" "wellFormed h y"
    and md: "modulusOf h zp = p" "modulusOf h x = p" "modulusOf h y = p"
    and pos: "0 < p"
    and cell: "Int' (zps h ! zp) \<noteq> P (zps h ! zp)"
  shows "\<exists>h'. Mul h zp x y = Inr (h', zp) \<and> valueOf h' zp = (valueOf h x * valueOf h y) mod p
           \<and> modulusOf h' zp = p"
proof -
  let ?z = "zps h ! zp"
  let ?s = "valueOf h x * valueOf h y"
  let ?h1 = "setInt h (Int' ?z) ?s"
  have a: "assertP h zp [x, y] = Inr ()"
    using wf md by (intro assertP_two) simp_all
  have n: "Norm ?h1 zp = Inr (setInt ?h1 (Int' ?z) (?s mod \<bar>p\<bar>))"
    using wf md pos cell
    by (subst Norm_result) (auto simp: wellFormed_def setInt_def modulusOf_def)
  have "Mul h zp x y = Inr (setInt ?h1 (Int' ?z) (?s mod \<bar>p\<bar>), zp)"
    using wf a n by (simp add: Mul_def wellFormed_def getZp_def getInt_def valueOf_def)
  moreover have "valueOf (setInt ?h1 (Int' ?z) (?s mod \<bar>p\<bar>)) zp = ?s mod p"
    using wf pos by (simp add: valueOf_def setInt_def wellFormed_def)
  moreover have "modulusOf (setInt ?h1 (Int' ?z) (?s mod \<bar>p\<bar>)) zp = p"
    using wf md cell by (simp add: modulusOf_def setInt_def wellFormed_def)
  ultimately show ?thesis by blast
qed

lemma NewZp_value:
  assumes "0 < sint p"
  shows "\<exists>h' zp. NewZp h p n = Inr (h', zp) \<and> wellFormed h' zp \<and>
           valueOf h' zp = sint n mod sint p \<and> modulusOf h' zp = sint p"
  using assms
  by (simp add: NewZp_def newInt_def newZpStruct_def Norm_def getZp_def getInt_def big_Mod_def
      setInt_def valueOf_def modulusOf_def wellFormed_def nth_append)

text \<open>
  Claim C9.  For a receiver and two operands of one modulus \<open>p > 0\<close> (a prime is), \<open>Add\<close>
  returns with the receiver holding \<open>(x + y) mod p\<close> and \<open>Mul\<close> with the receiver holding
  \<open>(x * y) mod p\<close>, both in \<open>[0, p)\<close>; \<open>NewZp\<close> gives, for a modulus \<open>q > 0\<close> and any
  \<open>n\<close>, negative ones too, an element of value \<open>n mod q\<close> in \<open>[0, q)\<close>.  The receiver is an
  element whose value is not the very big integer that is its modulus.
\<close>

theorem Zp_values_normalized:
  "(wellFormed h zp \<and> wellFormed h x \<and> wellFormed h y \<and>
    modulusOf h zp = p \<and> modulusOf h x = p \<and> modulusOf h y = p \<and> 0 < p \<and>
    Int' (zps h ! zp) \<noteq> P (zps h ! zp) \<longrightarrow>
      (\<exists>h'. Add h zp x y = Inr (h', zp) \<and> valueOf h' zp = (valueOf h x + valueOf h y) mod p \<and>
            0 \<le> valueOf h' zp \<and> valueOf h' zp < p) \<and>
      (\<exists>h'. Mul h zp x y = Inr (h', zp) \<and> valueOf h' zp = (valueOf h x * valueOf h y) mod p \<and>
            0 \<le> valueOf h' zp \<and> valueOf h' zp < p)) \<and>
   (0 < sint q \<longrightarrow>
      (\<exists>h' r. NewZp h q n = Inr (h', r) \<and> valueOf h' r = sint n mod sint q \<and>
            0 \<le> valueOf h' r \<and> valueOf h' r < sint q))"
proof (intro conjI impI)
  assume a: "wellFormed h zp \<and> wellFormed h x \<and> wellFormed h y \<and>
    modulusOf h zp = p \<and> modulusOf h x = p \<and> modulusOf h y = p \<and> 0 < p \<and>
    Int' (zps h ! zp) \<noteq> P (zps h ! zp)"
  then obtain h' where "Add h zp x y = Inr (h', zp)"
      "valueOf h' zp = (valueOf h x + valueOf h y) mod p"
    using Add_value [of h zp x y p] by blast
  with a show "\<exists>h'. Add h zp x y = Inr (h', zp) \<and> valueOf h' zp = (valueOf h x + valueOf h y) mod p \<and>
            0 \<le> valueOf h' zp \<and> valueOf h' zp < p"
    by auto
  from a obtain h'' where "Mul h zp x y = Inr (h'', zp)"
      "valueOf h'' zp = (valueOf h x * valueOf h y) mod p"
    using Mul_value [of h zp x y p] by blast
  with a show "\<exists>h'. Mul h zp x y = Inr (h', zp) \<and> valueOf h' zp = (valueOf h x * valueOf h y) mod p \<and>
            0 \<le> valueOf h' zp \<and> valueOf h' zp < p"
    by auto
next
  assume q: "0 < sint q"
  then obtain h' r where "NewZp h q n = Inr (h', r)" "valueOf h' r = sint n mod sint q"
    using NewZp_value [of q h n] by blast
  with q show "\<exists>h' r. NewZp h q n = Inr (h', r) \<and> valueOf h' r = sint n mod sint q \<and>
            0 \<le> valueOf h' r \<and> valueOf h' r < sint q"
    by auto
qed


theorem Zp_values_normalized_witness:
  "(\<exists>h'. Add exHeap 2 0 1 = Inr (h', 2) \<and>
         valueOf h' 2 = (valueOf exHeap 0 + valueOf exHeap 1) mod 7 \<and>
         0 \<le> valueOf h' 2 \<and> valueOf h' 2 < 7) \<and>
   (\<exists>h'. Mul exHeap 2 0 1 = Inr (h', 2) \<and>
         valueOf h' 2 = (valueOf exHeap 0 * valueOf exHeap 1) mod 7 \<and>
         0 \<le> valueOf h' 2 \<and> valueOf h' 2 < 7) \<and>
   (\<exists>h' r. NewZp exHeap 7 (- 3) = Inr (h', r) \<and> valueOf h' r = sint (- 3 :: 64 word) mod sint (7 :: 64 word) \<and>
         0 \<le> valueOf h' r \<and> valueOf h' r < sint (7 :: 64 word))"
proof -
  have hyp: "wellFormed exHeap 2 \<and> wellFormed exHeap 0 \<and> wellFormed exHeap 1 \<and>
      modulusOf exHeap 2 = 7 \<and> modulusOf exHeap 0 = 7 \<and> modulusOf exHeap 1 = 7 \<and> (0::int) < 7 \<and>
      Int' (zps exHeap ! 2) \<noteq> P (zps exHeap ! 2)"
    by (simp add: exHeap_def wellFormed_def modulusOf_def)
  have pos: "0 < sint (7 :: 64 word)"
    by simp
  from Zp_values_normalized [where h = exHeap and zp = 2 and x = 0 and y = 1 and p = 7
      and q = 7 and n = "- 3"] hyp pos show ?thesis
    by blast
qed

lemma Norm_frame:
  "Norm h zp = Inr h' \<Longrightarrow> \<exists>v. h' = setInt h (Int' (zps h ! zp)) v"
  unfolding Norm_def bindE_eq_Inr getZp_def
  by (auto split: if_splits)

lemma Add_frame:
  assumes "Add h zp x y = Inr (h', r)"
  shows "r = zp \<and> (\<exists>v. h' = setInt h (Int' (zps h ! zp)) v)"
  using assms
  unfolding Add_def bindE_eq_Inr getZp_def
  apply (elim exE conjE)
  apply (simp split: if_splits)
  apply (drule Norm_frame)
  apply (auto simp: setInt_def)
  done

lemma Mul_frame:
  assumes "Mul h zp x y = Inr (h', r)"
  shows "r = zp \<and> (\<exists>v. h' = setInt h (Int' (zps h ! zp)) v)"
  using assms
  unfolding Mul_def bindE_eq_Inr getZp_def
  apply (elim exE conjE)
  apply (simp split: if_splits)
  apply (drule Norm_frame)
  apply (auto simp: setInt_def)
  done

lemma valueOf_setInt_other:
  "c \<noteq> Int' (zps h ! x) \<Longrightarrow> valueOf (setInt h c v) x = valueOf h x"
  by (simp add: valueOf_def setInt_def)

lemma receiver_frame:
  assumes "r = zp \<and> (\<exists>v. h' = setInt h (Int' (zps h ! zp)) v)"
  shows "r = zp \<and> zps h' = zps h \<and> (\<exists>v. h' = setInt h (Int' (zps h ! zp)) v) \<and>
      (Int' (zps h ! zp) \<noteq> Int' (zps h ! x) \<and> Int' (zps h ! zp) \<noteq> Int' (zps h ! y) \<longrightarrow>
         valueOf h' x = valueOf h x \<and> valueOf h' y = valueOf h y)"
  using assms by (auto simp: valueOf_def setInt_def)

lemma Add_exact:
  assumes wf: "wellFormed h zp" "wellFormed h x" "wellFormed h y"
    and md: "modulusOf h zp = p" "modulusOf h x = p" "modulusOf h y = p"
    and pos: "0 < p"
    and cell: "Int' (zps h ! zp) \<noteq> P (zps h ! zp)"
  shows "Add h zp x y = Inr (setInt h (Int' (zps h ! zp)) ((valueOf h x + valueOf h y) mod p), zp)"
proof -
  let ?z = "zps h ! zp"
  let ?s = "valueOf h x + valueOf h y"
  let ?h1 = "setInt h (Int' ?z) ?s"
  have a: "assertP h zp [x, y] = Inr ()"
    using wf md by (intro assertP_two) simp_all
  have n: "Norm ?h1 zp = Inr (setInt ?h1 (Int' ?z) (?s mod \<bar>p\<bar>))"
    using wf md pos cell
    by (subst Norm_result) (auto simp: wellFormed_def setInt_def modulusOf_def)
  have "Add h zp x y = Inr (setInt ?h1 (Int' ?z) (?s mod \<bar>p\<bar>), zp)"
    using wf a n by (simp add: Add_def wellFormed_def getZp_def getInt_def valueOf_def)
  with pos show ?thesis by (simp add: setInt_def)
qed

lemma Mul_exact:
  assumes wf: "wellFormed h zp" "wellFormed h x" "wellFormed h y"
    and md: "modulusOf h zp = p" "modulusOf h x = p" "modulusOf h y = p"
    and pos: "0 < p"
    and cell: "Int' (zps h ! zp) \<noteq> P (zps h ! zp)"
  shows "Mul h zp x y = Inr (setInt h (Int' (zps h ! zp)) ((valueOf h x * valueOf h y) mod p), zp)"
proof -
  let ?z = "zps h ! zp"
  let ?s = "valueOf h x * valueOf h y"
  let ?h1 = "setInt h (Int' ?z) ?s"
  have a: "assertP h zp [x, y] = Inr ()"
    using wf md by (intro assertP_two) simp_all
  have n: "Norm ?h1 zp = Inr (setInt ?h1 (Int' ?z) (?s mod \<bar>p\<bar>))"
    using wf md pos cell
    by (subst Norm_result) (auto simp: wellFormed_def setInt_def modulusOf_def)
  have "Mul h zp x y = Inr (setInt ?h1 (Int' ?z) (?s mod \<bar>p\<bar>), zp)"
    using wf a n by (simp add: Mul_def wellFormed_def getZp_def getInt_def valueOf_def)
  with pos show ?thesis by (simp add: setInt_def)
qed

lemma valueOf_setInt_same:
  "wellFormed h zp \<Longrightarrow> valueOf (setInt h (Int' (zps h ! zp)) v) zp = v"
  by (simp add: valueOf_def setInt_def wellFormed_def)

lemma stored_in_receiver:
  assumes wf: "wellFormed h zp"
    and res: "res = Inr (setInt h (Int' (zps h ! zp)) v, zp)"
  shows "\<exists>h'. res = Inr (h', zp) \<and> h' = setInt h (Int' (zps h ! zp)) v \<and>
            valueOf h' zp = v \<and> zps h' = zps h \<and>
            (Int' (zps h ! zp) \<noteq> Int' (zps h ! x) \<and> Int' (zps h ! zp) \<noteq> Int' (zps h ! y) \<longrightarrow>
               valueOf h' x = valueOf h x \<and> valueOf h' y = valueOf h y)"
  using assms by (simp add: valueOf_def setInt_def wellFormed_def)

text \<open>
  Claim C10.  For a receiver and two operands of one modulus \<open>p > 0\<close>, \<open>Add\<close> and \<open>Mul\<close>
  return, the pointer they return is the receiver, and the heap after is the heap before
  with the big integer of the receiver's value set to \<open>(x + y) mod p\<close>, respectively
  \<open>(x * y) mod p\<close>: the result is stored in the receiver, which then has that value.
  Whenever \<open>Add\<close> or \<open>Mul\<close> returns, the pointer is the receiver and the heap differs from
  the one before in that big integer only.  When it is not the big integer of either
  operand's value, as for a receiver just created, the operands have the values they had.
\<close>

theorem Zp_result_in_receiver:
  "(wellFormed h zp \<and> wellFormed h x \<and> wellFormed h y \<and>
    modulusOf h zp = p \<and> modulusOf h x = p \<and> modulusOf h y = p \<and> 0 < p \<and>
    Int' (zps h ! zp) \<noteq> P (zps h ! zp) \<longrightarrow>
      (\<exists>h'. Add h zp x y = Inr (h', zp) \<and>
            h' = setInt h (Int' (zps h ! zp)) ((valueOf h x + valueOf h y) mod p) \<and>
            valueOf h' zp = (valueOf h x + valueOf h y) mod p \<and> zps h' = zps h \<and>
            (Int' (zps h ! zp) \<noteq> Int' (zps h ! x) \<and> Int' (zps h ! zp) \<noteq> Int' (zps h ! y) \<longrightarrow>
               valueOf h' x = valueOf h x \<and> valueOf h' y = valueOf h y)) \<and>
      (\<exists>h'. Mul h zp x y = Inr (h', zp) \<and>
            h' = setInt h (Int' (zps h ! zp)) ((valueOf h x * valueOf h y) mod p) \<and>
            valueOf h' zp = (valueOf h x * valueOf h y) mod p \<and> zps h' = zps h \<and>
            (Int' (zps h ! zp) \<noteq> Int' (zps h ! x) \<and> Int' (zps h ! zp) \<noteq> Int' (zps h ! y) \<longrightarrow>
               valueOf h' x = valueOf h x \<and> valueOf h' y = valueOf h y))) \<and>
   (Add h zp x y = Inr (h', r) \<longrightarrow>
      r = zp \<and> zps h' = zps h \<and> (\<exists>v. h' = setInt h (Int' (zps h ! zp)) v) \<and>
      (Int' (zps h ! zp) \<noteq> Int' (zps h ! x) \<and> Int' (zps h ! zp) \<noteq> Int' (zps h ! y) \<longrightarrow>
         valueOf h' x = valueOf h x \<and> valueOf h' y = valueOf h y)) \<and>
   (Mul h zp x y = Inr (h', r) \<longrightarrow>
      r = zp \<and> zps h' = zps h \<and> (\<exists>v. h' = setInt h (Int' (zps h ! zp)) v) \<and>
      (Int' (zps h ! zp) \<noteq> Int' (zps h ! x) \<and> Int' (zps h ! zp) \<noteq> Int' (zps h ! y) \<longrightarrow>
         valueOf h' x = valueOf h x \<and> valueOf h' y = valueOf h y))"
proof (intro conjI)
  show "wellFormed h zp \<and> wellFormed h x \<and> wellFormed h y \<and>
    modulusOf h zp = p \<and> modulusOf h x = p \<and> modulusOf h y = p \<and> 0 < p \<and>
    Int' (zps h ! zp) \<noteq> P (zps h ! zp) \<longrightarrow>
      (\<exists>h'. Add h zp x y = Inr (h', zp) \<and>
            h' = setInt h (Int' (zps h ! zp)) ((valueOf h x + valueOf h y) mod p) \<and>
            valueOf h' zp = (valueOf h x + valueOf h y) mod p \<and> zps h' = zps h \<and>
            (Int' (zps h ! zp) \<noteq> Int' (zps h ! x) \<and> Int' (zps h ! zp) \<noteq> Int' (zps h ! y) \<longrightarrow>
               valueOf h' x = valueOf h x \<and> valueOf h' y = valueOf h y)) \<and>
      (\<exists>h'. Mul h zp x y = Inr (h', zp) \<and>
            h' = setInt h (Int' (zps h ! zp)) ((valueOf h x * valueOf h y) mod p) \<and>
            valueOf h' zp = (valueOf h x * valueOf h y) mod p \<and> zps h' = zps h \<and>
            (Int' (zps h ! zp) \<noteq> Int' (zps h ! x) \<and> Int' (zps h ! zp) \<noteq> Int' (zps h ! y) \<longrightarrow>
               valueOf h' x = valueOf h x \<and> valueOf h' y = valueOf h y))"
  proof
    assume a: "wellFormed h zp \<and> wellFormed h x \<and> wellFormed h y \<and>
      modulusOf h zp = p \<and> modulusOf h x = p \<and> modulusOf h y = p \<and> 0 < p \<and>
      Int' (zps h ! zp) \<noteq> P (zps h ! zp)"
    then have wf: "wellFormed h zp" by simp
    from a have add: "Add h zp x y =
        Inr (setInt h (Int' (zps h ! zp)) ((valueOf h x + valueOf h y) mod p), zp)"
      by (intro Add_exact) simp_all
    from a have mul: "Mul h zp x y =
        Inr (setInt h (Int' (zps h ! zp)) ((valueOf h x * valueOf h y) mod p), zp)"
      by (intro Mul_exact) simp_all
    from stored_in_receiver [OF wf add, of x y] stored_in_receiver [OF wf mul, of x y]
    show "(\<exists>h'. Add h zp x y = Inr (h', zp) \<and>
            h' = setInt h (Int' (zps h ! zp)) ((valueOf h x + valueOf h y) mod p) \<and>
            valueOf h' zp = (valueOf h x + valueOf h y) mod p \<and> zps h' = zps h \<and>
            (Int' (zps h ! zp) \<noteq> Int' (zps h ! x) \<and> Int' (zps h ! zp) \<noteq> Int' (zps h ! y) \<longrightarrow>
               valueOf h' x = valueOf h x \<and> valueOf h' y = valueOf h y)) \<and>
      (\<exists>h'. Mul h zp x y = Inr (h', zp) \<and>
            h' = setInt h (Int' (zps h ! zp)) ((valueOf h x * valueOf h y) mod p) \<and>
            valueOf h' zp = (valueOf h x * valueOf h y) mod p \<and> zps h' = zps h \<and>
            (Int' (zps h ! zp) \<noteq> Int' (zps h ! x) \<and> Int' (zps h ! zp) \<noteq> Int' (zps h ! y) \<longrightarrow>
               valueOf h' x = valueOf h x \<and> valueOf h' y = valueOf h y))"
      by (rule conjI)
  qed
next
  show "Add h zp x y = Inr (h', r) \<longrightarrow>
      r = zp \<and> zps h' = zps h \<and> (\<exists>v. h' = setInt h (Int' (zps h ! zp)) v) \<and>
      (Int' (zps h ! zp) \<noteq> Int' (zps h ! x) \<and> Int' (zps h ! zp) \<noteq> Int' (zps h ! y) \<longrightarrow>
         valueOf h' x = valueOf h x \<and> valueOf h' y = valueOf h y)"
    using receiver_frame [OF Add_frame, of h zp x y h' r x y] by blast
next
  show "Mul h zp x y = Inr (h', r) \<longrightarrow>
      r = zp \<and> zps h' = zps h \<and> (\<exists>v. h' = setInt h (Int' (zps h ! zp)) v) \<and>
      (Int' (zps h ! zp) \<noteq> Int' (zps h ! x) \<and> Int' (zps h ! zp) \<noteq> Int' (zps h ! y) \<longrightarrow>
         valueOf h' x = valueOf h x \<and> valueOf h' y = valueOf h y)"
    using receiver_frame [OF Mul_frame, of h zp x y h' r x y] by blast
qed

lemma exHeap_Add: "Add exHeap 2 0 1 = Inr (exHeap', 2)"
  by code_simp

lemma exHeap_Mul: "Mul exHeap 2 0 1 = Inr (exHeap', 2)"
  by code_simp

lemma exHeapB_hyp:
  "wellFormed exHeapB 2 \<and> wellFormed exHeapB 0 \<and> wellFormed exHeapB 1 \<and>
   modulusOf exHeapB 2 = 7 \<and> modulusOf exHeapB 0 = 7 \<and> modulusOf exHeapB 1 = 7 \<and> (0::int) < 7 \<and>
   Int' (zps exHeapB ! 2) \<noteq> P (zps exHeapB ! 2)"
  by (simp add: exHeapB_def wellFormed_def modulusOf_def)

theorem Zp_result_in_receiver_witness:
  "Add exHeapB 2 0 1 = Inr (exHeapB\<lparr>ints := [7, 3, 6, 2]\<rparr>, 2) \<and>
   valueOf (exHeapB\<lparr>ints := [7, 3, 6, 2]\<rparr>) 2 = 2 \<and>
   valueOf (exHeapB\<lparr>ints := [7, 3, 6, 2]\<rparr>) 0 = 3 \<and>
   valueOf (exHeapB\<lparr>ints := [7, 3, 6, 2]\<rparr>) 1 = 6 \<and>
   zps (exHeapB\<lparr>ints := [7, 3, 6, 2]\<rparr>) = zps exHeapB \<and>
   Mul exHeapB 2 0 1 = Inr (exHeapB\<lparr>ints := [7, 3, 6, 4]\<rparr>, 2) \<and>
   valueOf (exHeapB\<lparr>ints := [7, 3, 6, 4]\<rparr>) 2 = 4 \<and>
   valueOf (exHeapB\<lparr>ints := [7, 3, 6, 4]\<rparr>) 0 = 3 \<and>
   valueOf (exHeapB\<lparr>ints := [7, 3, 6, 4]\<rparr>) 1 = 6 \<and>
   zps (exHeapB\<lparr>ints := [7, 3, 6, 4]\<rparr>) = zps exHeapB"
  using Zp_result_in_receiver [where h = exHeapB and zp = 2 and x = 0 and y = 1 and p = 7
      and h' = "exHeapB\<lparr>ints := [7, 3, 6, 2]\<rparr>" and r = 2]
    Zp_result_in_receiver [where h = exHeapB and zp = 2 and x = 0 and y = 1 and p = 7
      and h' = "exHeapB\<lparr>ints := [7, 3, 6, 4]\<rparr>" and r = 2] exHeapB_hyp
  by (simp add: exHeapB_def valueOf_def setInt_def)

text \<open>An operand that is the receiver is overwritten.\<close>

lemma Add_into_operand:
  "Add exHeap 0 0 1 = Inr (exHeap\<lparr>ints := [7, 1, 5, 0]\<rparr>, 0) \<and> valueOf exHeap 0 = 3 \<and>
   valueOf (exHeap\<lparr>ints := [7, 1, 5, 0]\<rparr>) 0 = 1"
  by code_simp

text \<open>
  On a receiver that shares no big integer with the operands or the moduli, \<open>Mul\<close> is the
  multiplication \<open>mulZ\<close> of values, and leaves the operands alone.
\<close>

lemma Mul_fresh_receiver:
  assumes wf: "wellFormed h zp" "wellFormed h x" "wellFormed h y"
    and fresh: "Int' (zps h ! zp) \<notin> {P (zps h ! zp), P (zps h ! x), P (zps h ! y),
                   Int' (zps h ! x), Int' (zps h ! y)}"
  shows "case mulZ (modulusOf h zp) (toV h x) (toV h y) of
           Inl e \<Rightarrow> Mul h zp x y = Inl e
         | Inr v \<Rightarrow> (\<exists>h'. Mul h zp x y = Inr (h', zp) \<and> toV h' zp = v \<and>
                        toV h' x = toV h x \<and> toV h' y = toV h y)"
  using wf fresh
  by (auto simp: mulZ_def Mul_def toV_def wellFormed_def modulusOf_def valueOf_def getZp_def
      getInt_def Norm_def big_Mod_def setInt_def)

section \<open>Removal\<close>

text \<open>
  Claim C6.  For every tree and every element, \<open>Remove\<close> fails with the explicit panic
  \<open>remove not impl\<close>, never returns (with or without an \<open>error\<close>), and leaves the tree,
  and with it every node record of the store, as it was.
\<close>

theorem Remove_unsupported:
  "fst (Remove t z) = Inl (Panic ''remove not impl'') \<and> (\<forall>e. fst (Remove t z) \<noteq> Inr e) \<and>
   snd (Remove t z) = t \<and> store (snd (Remove t z)) = store t"
  by (simp add: Remove_def)

section \<open>Evaluation of the integer codec\<close>

text \<open>
  The lengths are natural numbers; for evaluation the four bytes are computed on the
  integers, whose numerals are binary.
\<close>

lemma of_nat_div_int: "(of_nat (n div k) :: byte) = of_int (int n div int k)"
  by (metis of_int_of_nat_eq zdiv_int)

lemma WriteInt_code [code]:
  "WriteInt n =
     (let i = int n in [of_int (i div 16777216), of_int (i div 65536), of_int (i div 256), of_int i])"
  by (simp add: WriteInt_def Let_def of_nat_div_int)

lemma ReadInt_code [code]:
  "ReadInt (a # b # c # d # rest) =
     Inr (nat (uint a * 16777216 + uint b * 65536 + uint c * 256 + uint d), rest)"
  "ReadInt [] = Inl EOF"
  "ReadInt [a] = Inl EOF"
  "ReadInt [a, b] = Inl EOF"
  "ReadInt [a, b, c] = Inl EOF"
  by (simp_all add: nat_add_distrib nat_mult_distrib)

section \<open>Results of \<open>insert\<close> and \<open>split\<close>\<close>




lemma split'_result:
  assumes "split' fuel t n depth = Some (Inr n')"
  shows "n' = n\<lparr>elements := []\<rparr>"
proof (cases fuel)
  case 0
  with assms show ?thesis by simp
next
  case (Suc f)
  with assms show ?thesis
    by (simp split: sum.splits option.splits)
qed


section \<open>Children\<close>

lemma childrenLoop_length:
  "childrenLoop t k is = Inr cs \<Longrightarrow> length cs = length is"
proof (induction "is" arbitrary: cs)
  case Nil
  then show ?case by simp
next
  case (Cons i "is")
  from Cons.prems obtain child rest where "childrenLoop t k is = Inr rest" "cs = child # rest"
    unfolding childrenLoop.simps bindE_eq_Inr
    by (elim exE conjE) (auto simp: bindE_eq_Inr split: sum.splits)
  with Cons.IH show ?case by simp
qed

lemma Children_length:
  assumes "Children t n = Inr cs"
  shows "length cs = nat (BitQuantum t)"
  using assms childrenLoop_length [of t _ "map int [0..<nat (BitQuantum t)]" cs]
  by (auto simp: Children_def bindE_eq_Inr)

text \<open>Whenever \<open>Children\<close> returns, it returns \<open>bitQuantum\<close> nodes, which is never \<open>2 ^ bitQuantum\<close>.\<close>

lemma Children_not_fan_out:
  assumes "Children t n = Inr cs"
  shows "length cs \<noteq> 2 ^ nat (BitQuantum t)"
  using Children_length [OF assms] by (metis less_exp less_irrefl)

text \<open>
  Claim C1.  On the internal root of the example tree, whose four children are in the
  store under their keys, \<open>Children\<close> does not return the \<open>2 ^ bitQuantum = 4\<close> children: it
  fails with an index out of range, on the child key of the capacity of the parent's key.
  On the leaf root of the first example tree it fails likewise and does not return the
  empty list.
\<close>

theorem Children_on_example:
  "BitQuantum exInnerTree = 2 \<and> \<not> IsLeaf exInnerRoot \<and> Root exInnerTree = Inr exInnerRoot \<and>
   Node exInnerTree [False, False] = Inr (exChild 0) \<and>
   Node exInnerTree [True, False] = Inr (exChild 128) \<and>
   Node exInnerTree [False, True] = Inr (exChild 64) \<and>
   Node exInnerTree [True, True] = Inr (exChild 192) \<and>
   Children exInnerTree exInnerRoot = Inl IndexOutOfRange \<and>
   IsLeaf exRoot \<and> Root exTree = Inr exRoot \<and> Children exTree exRoot = Inl IndexOutOfRange"
  by code_simp

section \<open>Insertion into a leaf\<close>

text \<open>
  Claim C2.  The root of the example tree is a leaf with no element and a payload of four
  bytes, below the split threshold.  The insertion of 60 returns without an error and
  leaves the node with the payload it had followed by the encoding of the list \<open>[60]\<close>;
  the stored element list decodes to the empty list as before, not to \<open>[60]\<close>.
\<close>

theorem leaf_insert_on_example:
  "Root exTree = Inr exRoot \<and> IsLeaf exRoot \<and>
   \<not> int (length (elements exRoot)) > SplitThreshold exTree \<and>
   Elements exTree exRoot = Inr [] \<and>
   AddElementArray exTree exZ = Inr exMarray \<and> keyOf exTree exZ = Inr exKey \<and>
   insert' 1 exTree exRoot exZ exMarray exKey 0 = Some (Inr (None, exRootAfter)) \<and>
   elements exRootAfter = elements exRoot @ WriteZZarray (P_SKS exTree) [exZ] \<and>
   Elements exTree exRootAfter = Inr [] \<and> Elements exTree exRootAfter \<noteq> Inr [exZ]"
  by code_simp

section \<open>Split\<close>

text \<open>A split that returns has changed nothing of the node but the payload, which is empty.\<close>

lemma split_keeps_leaf:
  assumes "split' fuel t n depth = Some (Inr n')"
  shows "elements n' = [] \<and> childKeys n' = childKeys n \<and> (IsLeaf n' \<longleftrightarrow> IsLeaf n)"
  using split'_result [OF assms] by (simp add: IsLeaf_def)

text \<open>
  Claim C3.  The root of the second example tree is a leaf of five elements whose payload
  of 9 bytes is over the split threshold of 8.  The split makes the four child nodes and
  drops them, and fails on the first element it moves, with the index out of range of
  \<open>Children\<close>: no child has an element, and the insertion that splits fails with it.
\<close>

theorem split_on_example:
  "IsLeaf exFullRoot \<and> int (length (elements exFullRoot)) > SplitThreshold exFullTree \<and>
   Elements exFullTree exFullRoot =
     Inr [\<lparr>num = 10, modulus = 251\<rparr>, \<lparr>num = 20, modulus = 251\<rparr>, \<lparr>num = 30, modulus = 251\<rparr>,
          \<lparr>num = 40, modulus = 251\<rparr>, \<lparr>num = 50, modulus = 251\<rparr>] \<and>
   numChildren (BitQuantum exFullTree) = 4 \<and>
   createChildren exFullTree exFullRoot [0, 1, 2, 3] = Inr () \<and>
   split' 4 exFullTree exFullRoot 0 = Some (Inl IndexOutOfRange) \<and>
   Insert 5 exFullTree exZ = (Some (Inl IndexOutOfRange), exFullTree)"
  by code_simp

section \<open>The node store\<close>



section \<open>The element count\<close>




end
